theory Spec2Isabelle
  imports Complex_Main "HOL-Library.Word"
begin

section \<open>JavaScript strings and numbers\<close>

text \<open>
  A JavaScript string is a sequence of UTF-16 code units. The regular expressions and
  \<^verbatim>\<open>trim\<close> of \<^verbatim>\<open>scrape.js\<close> look at single code units (digits, separators, white
  space, the euro sign U+20AC, the narrow no-break space U+202F), so a string is a list
  of 16-bit words. \<open>js\<close> embeds an ASCII literal.
\<close>

type_synonym cu = "16 word"
type_synonym jsstring = "cu list"

definition js :: "string \<Rightarrow> jsstring" where
  "js s = map of_char s"

text \<open>
  A JavaScript number is an IEEE double. \<open>Fin q\<close> stands for the double nearest to the
  rational \<open>q\<close> (the rounding of a decimal literal to 53 bits is not applied, so two
  numbers read from the same decimal are equal here as they are in JavaScript); the
  overflow to \<open>Infinity\<close> is modelled exactly by \<open>toDouble\<close>. Negative zero is
  identified with zero: both are falsy, finite and different from \<^verbatim>\<open>null\<close>.
\<close>

datatype jsnum = Fin rat | PosInf | NegInf | NaN

definition DBL_OVERFLOW :: rat where
  \<comment> \<open>the least magnitude that rounds to Infinity: the largest double plus half an ulp\<close>
  "DBL_OVERFLOW = 2 ^ 1024 - 2 ^ 970"

definition toDouble :: "rat \<Rightarrow> jsnum" where
  "toDouble q = (if \<bar>q\<bar> < DBL_OVERFLOW then Fin q else if 0 < q then PosInf else NegInf)"

fun isFinite :: "jsnum \<Rightarrow> bool" where
  \<comment> \<open>\<^verbatim>\<open>Number.isFinite\<close> on a number\<close>
  "isFinite (Fin q) = True"
| "isFinite PosInf = False"
| "isFinite NegInf = False"
| "isFinite NaN = False"

subsection \<open>Character classes\<close>

definition isDigit :: "cu \<Rightarrow> bool" where
  \<comment> \<open>\<^verbatim>\<open>\d\<close>: 0 to 9\<close>
  "isDigit c = (0x30 \<le> c \<and> c \<le> 0x39)"

definition isWhiteSpace :: "cu \<Rightarrow> bool" where
  \<comment> \<open>\<^verbatim>\<open>\s\<close>, and what \<^verbatim>\<open>trim\<close> strips: WhiteSpace and LineTerminator of ECMAScript\<close>
  "isWhiteSpace c =
     (c = 0x09 \<or> c = 0x0A \<or> c = 0x0B \<or> c = 0x0C \<or> c = 0x0D \<or> c = 0x20 \<or> c = 0xA0
      \<or> c = 0x1680 \<or> (0x2000 \<le> c \<and> c \<le> 0x200A) \<or> c = 0x2028 \<or> c = 0x2029
      \<or> c = 0x202F \<or> c = 0x205F \<or> c = 0x3000 \<or> c = 0xFEFF)"

definition trim :: "jsstring \<Rightarrow> jsstring" where
  "trim s = rev (dropWhile isWhiteSpace (rev (dropWhile isWhiteSpace s)))"

function collapseWhiteSpace :: "jsstring \<Rightarrow> jsstring" where
  \<comment> \<open>\<^verbatim>\<open>s.replace(/\s+/g, ' ')\<close>: every maximal run of white space becomes one space\<close>
  "collapseWhiteSpace [] = []"
| "collapseWhiteSpace (c # cs) =
     (if isWhiteSpace c then 0x20 # collapseWhiteSpace (dropWhile isWhiteSpace cs)
      else c # collapseWhiteSpace cs)"
  by pat_completeness auto
termination
  by (relation "measure length") (auto simp: less_Suc_eq_le length_dropWhile_le)

fun replaceFirst :: "cu \<Rightarrow> cu \<Rightarrow> jsstring \<Rightarrow> jsstring" where
  \<comment> \<open>\<^verbatim>\<open>s.replace(a, b)\<close> with a one-character string pattern: the first occurrence only\<close>
  "replaceFirst a b [] = []"
| "replaceFirst a b (c # cs) = (if c = a then b # cs else c # replaceFirst a b cs)"

subsection \<open>The numeric pattern\<close>

text \<open>
  \<^verbatim>\<open>/(\d{1,3}(?:[.\s]\d{3})*(?:[\,\.]\d+)?)/\<close>, used by \<^verbatim>\<open>normalizeNumberString\<close> and by
  \<^verbatim>\<open>findNumberInText\<close>. Every quantifier is greedy and everything after \<^verbatim>\<open>\d{1,3}\<close> may
  match the empty string, so the backtracking matcher succeeds on its first path: as many
  digits as there are, up to three; then groups of a separator and exactly three digits
  while they follow; then a decimal separator with its digits when they follow. The match
  is tried at each position from the left.
\<close>

definition isGroupSep :: "cu \<Rightarrow> bool" where
  \<comment> \<open>\<^verbatim>\<open>[.\s]\<close>\<close>
  "isGroupSep c = (c = 0x2E \<or> isWhiteSpace c)"

definition isDecimalSep :: "cu \<Rightarrow> bool" where
  \<comment> \<open>\<^verbatim>\<open>[\,\.]\<close>\<close>
  "isDecimalSep c = (c = 0x2C \<or> c = 0x2E)"

fun groups :: "jsstring \<Rightarrow> jsstring \<times> jsstring" where
  \<comment> \<open>\<^verbatim>\<open>(?:[.\s]\d{3})*\<close>: what the groups consume, and what is left\<close>
  "groups (s # a # b # c # rest) =
     (if isGroupSep s \<and> isDigit a \<and> isDigit b \<and> isDigit c
      then (case groups rest of (g, r) \<Rightarrow> (s # a # b # c # g, r))
      else ([], s # a # b # c # rest))"
| "groups xs = ([], xs)"

definition fraction :: "jsstring \<Rightarrow> jsstring" where
  \<comment> \<open>\<^verbatim>\<open>(?:[\,\.]\d+)?\<close>: what it consumes\<close>
  "fraction xs =
     (case xs of
        [] \<Rightarrow> []
      | c # rest \<Rightarrow>
          if isDecimalSep c \<and> takeWhile isDigit rest \<noteq> [] then c # takeWhile isDigit rest
          else [])"

definition matchAt :: "jsstring \<Rightarrow> jsstring option" where
  \<comment> \<open>the pattern anchored at the start of the string\<close>
  "matchAt xs =
     (if takeWhile isDigit (take 3 xs) = [] then None
      else (case groups (drop (length (takeWhile isDigit (take 3 xs))) xs) of
              (g, r) \<Rightarrow> Some (takeWhile isDigit (take 3 xs) @ g @ fraction r)))"

fun matchNumber :: "jsstring \<Rightarrow> jsstring option" where
  \<comment> \<open>\<^verbatim>\<open>text.match(re)\<close>: the leftmost match, \<open>None\<close> for \<^verbatim>\<open>null\<close>\<close>
  "matchNumber [] = None"
| "matchNumber (c # cs) =
     (case matchAt (c # cs) of Some m \<Rightarrow> Some m | None \<Rightarrow> matchNumber cs)"

subsection \<open>Reading numbers from strings\<close>

definition digitsVal :: "jsstring \<Rightarrow> nat" where
  \<comment> \<open>the value of a run of decimal digits\<close>
  "digitsVal ds = foldl (\<lambda>n c. 10 * n + (unat c - 48)) 0 ds"

definition scale10 :: "nat \<Rightarrow> int \<Rightarrow> rat" where
  \<comment> \<open>\<open>m\<close> times ten to the \<open>e\<close>\<close>
  "scale10 m e = (if 0 \<le> e then of_nat m * 10 ^ nat e else of_nat m / 10 ^ nat (- e))"

definition scanExponent :: "jsstring \<Rightarrow> int \<times> jsstring" where
  \<comment> \<open>ExponentPart, when one follows: its value and the rest\<close>
  "scanExponent xs =
     (case xs of
        [] \<Rightarrow> (0, xs)
      | e # r \<Rightarrow>
          if e = 0x65 \<or> e = 0x45 then
            (case r of
               [] \<Rightarrow> (0, xs)
             | s # r' \<Rightarrow>
                 if (s = 0x2B \<or> s = 0x2D) \<and> takeWhile isDigit r' \<noteq> [] then
                   ((if s = 0x2D then - int (digitsVal (takeWhile isDigit r'))
                     else int (digitsVal (takeWhile isDigit r'))),
                    dropWhile isDigit r')
                 else if takeWhile isDigit r \<noteq> [] then
                   (int (digitsVal (takeWhile isDigit r)), dropWhile isDigit r)
                 else (0, xs))
          else (0, xs))"

definition scanUnsigned :: "jsstring \<Rightarrow> (rat \<times> jsstring) option" where
  \<comment> \<open>the longest prefix that is a StrUnsignedDecimalLiteral other than Infinity\<close>
  "scanUnsigned xs =
     (let ip = takeWhile isDigit xs; r1 = dropWhile isDigit xs;
          dot = (r1 \<noteq> [] \<and> hd r1 = 0x2E);
          fp = (if dot then takeWhile isDigit (tl r1) else []);
          r2 = (if dot then dropWhile isDigit (tl r1) else r1)
      in if ip = [] \<and> fp = [] then None
         else (case scanExponent r2 of
                 (e, r3) \<Rightarrow> Some (scale10 (digitsVal (ip @ fp)) (e - int (length fp)), r3)))"

definition Infinity_str :: jsstring where
  "Infinity_str = js ''Infinity''"

definition scanDecimal :: "jsstring \<Rightarrow> (jsnum \<times> jsstring) option" where
  \<comment> \<open>the longest prefix that is a StrDecimalLiteral: an optional sign, then Infinity or
      digits with an optional fraction and exponent\<close>
  "scanDecimal xs =
     (let neg = (xs \<noteq> [] \<and> hd xs = 0x2D);
          body = (if xs \<noteq> [] \<and> (hd xs = 0x2B \<or> hd xs = 0x2D) then tl xs else xs)
      in if take 8 body = Infinity_str then Some (if neg then NegInf else PosInf, drop 8 body)
         else (case scanUnsigned body of
                 None \<Rightarrow> None
               | Some (q, r) \<Rightarrow> Some (toDouble (if neg then - q else q), r)))"

definition parseFloat :: "jsstring \<Rightarrow> jsnum" where
  \<comment> \<open>\<^verbatim>\<open>parseFloat\<close>: leading white space is skipped, the longest numeric prefix is read\<close>
  "parseFloat s =
     (case scanDecimal (dropWhile isWhiteSpace s) of None \<Rightarrow> NaN | Some (v, r) \<Rightarrow> v)"

section \<open>JavaScript values\<close>

text \<open>
  The values \<^verbatim>\<open>JSON.parse\<close> yields, and \<^verbatim>\<open>undefined\<close> for a property that is not there.
  An object is the list of its own properties (\<^verbatim>\<open>JSON.parse\<close> keeps the last of duplicate
  keys, so a key occurs once).
\<close>

datatype jsval =
    Undefined
  | Null
  | Bool bool
  | Num jsnum
  | Str jsstring
  | Arr "jsval list"
  | Obj "(jsstring \<times> jsval) list"

fun truthy :: "jsval \<Rightarrow> bool" where
  "truthy Undefined = False"
| "truthy Null = False"
| "truthy (Bool b) = b"
| "truthy (Num n) = (case n of Fin q \<Rightarrow> q \<noteq> 0 | PosInf \<Rightarrow> True | NegInf \<Rightarrow> True | NaN \<Rightarrow> False)"
| "truthy (Str s) = (s \<noteq> [])"
| "truthy (Arr xs) = True"
| "truthy (Obj kvs) = True"

section \<open>The numeric normalizer\<close>

definition normalizeNumberString :: "jsval \<Rightarrow> jsnum option" where
  \<comment> \<open>\<open>None\<close> is \<^verbatim>\<open>null\<close>\<close>
  "normalizeNumberString v =
     (case v of
        Str s0 \<Rightarrow>
          if s0 = [] then None
          else
            (case matchNumber (trim (collapseWhiteSpace (filter (\<lambda>c. c \<noteq> 0x202F) s0))) of
               None \<Rightarrow> None
             | Some m \<Rightarrow>
                 (let num = replaceFirst 0x2C 0x2E
                              (filter (\<lambda>c. c \<noteq> 0x2E) (filter (\<lambda>c. \<not> isWhiteSpace c) m));
                      v = parseFloat num
                  in if isFinite v then Some v else None))
      | _ \<Rightarrow> None)"


subsection \<open>Operators and conversions\<close>

definition js_or :: "jsval \<Rightarrow> jsval \<Rightarrow> jsval" where
  \<comment> \<open>\<^verbatim>\<open>a || b\<close>\<close>
  "js_or a b = (if truthy a then a else b)"

definition js_and :: "jsval \<Rightarrow> jsval \<Rightarrow> jsval" where
  \<comment> \<open>\<^verbatim>\<open>a && b\<close>\<close>
  "js_and a b = (if truthy a then b else a)"

fun getProp :: "jsval \<Rightarrow> jsstring \<Rightarrow> jsval" where
  \<comment> \<open>\<^verbatim>\<open>v.key\<close> for the keys the program reads (offers, price, priceSpecification): none
      is a built-in property of a string, number, boolean or array. Every read in
      \<^verbatim>\<open>tryJSONLD\<close> is guarded by the truthiness of \<open>v\<close>, so the TypeError of a read on
      \<^verbatim>\<open>null\<close> or \<^verbatim>\<open>undefined\<close> cannot happen.\<close>
  "getProp (Obj kvs) k = (case map_of kvs k of Some v \<Rightarrow> v | None \<Rightarrow> Undefined)"
| "getProp v k = Undefined"

definition hexDigit :: "cu \<Rightarrow> nat" where
  \<comment> \<open>the value of a digit in a radix up to 16; 16 for any other code unit\<close>
  "hexDigit c =
     (if 0x30 \<le> c \<and> c \<le> 0x39 then unat c - 48
      else if 0x61 \<le> c \<and> c \<le> 0x66 then unat c - 87
      else if 0x41 \<le> c \<and> c \<le> 0x46 then unat c - 55
      else 16)"

definition radixLiteral :: "nat \<Rightarrow> jsstring \<Rightarrow> jsnum" where
  \<comment> \<open>the digits of a NonDecimalIntegerLiteral after its prefix\<close>
  "radixLiteral b ds =
     (if ds \<noteq> [] \<and> list_all (\<lambda>c. hexDigit c < b) ds
      then toDouble (of_nat (foldl (\<lambda>n c. b * n + hexDigit c) 0 ds))
      else NaN)"

definition StringToNumber :: "jsstring \<Rightarrow> jsnum" where
  \<comment> \<open>\<^verbatim>\<open>Number(s)\<close> for a string: the whole trimmed string must be a numeric literal\<close>
  "StringToNumber s =
     (let t = trim s in
      if t = [] then Fin 0
      else if take 2 t = js ''0x'' \<or> take 2 t = js ''0X'' then radixLiteral 16 (drop 2 t)
      else if take 2 t = js ''0o'' \<or> take 2 t = js ''0O'' then radixLiteral 8 (drop 2 t)
      else if take 2 t = js ''0b'' \<or> take 2 t = js ''0B'' then radixLiteral 2 (drop 2 t)
      else (case scanDecimal t of
              None \<Rightarrow> NaN
            | Some (v, r) \<Rightarrow> if r = [] then v else NaN))"

fun throwsOnConvert :: "jsval \<Rightarrow> bool" where
  \<comment> \<open>whether converting the value to a primitive raises a TypeError: an object parsed
      from JSON with an own property \<^verbatim>\<open>toString\<close> (which is not callable) has no usable
      conversion method, and \<^verbatim>\<open>Array.prototype.join\<close> converts every element\<close>
  "throwsOnConvert (Obj kvs) = (map_of kvs (js ''toString'') \<noteq> None)"
| "throwsOnConvert (Arr xs) = list_ex throwsOnConvert xs"
| "throwsOnConvert v = False"

fun toNumber :: "jsval \<Rightarrow> jsnum" where
  \<comment> \<open>\<^verbatim>\<open>Number(v)\<close> when the conversion does not raise. An array converts through
      \<^verbatim>\<open>join\<close>: the empty array gives the empty string, an array of two or more
      elements a string with a comma (not a numeric literal), an array of one element
      the string of that element, where a number is printed and read back unchanged.\<close>
  "toNumber Undefined = NaN"
| "toNumber Null = Fin 0"
| "toNumber (Bool b) = (if b then Fin 1 else Fin 0)"
| "toNumber (Num n) = n"
| "toNumber (Str s) = StringToNumber s"
| "toNumber (Arr []) = Fin 0"
| "toNumber (Arr [x]) =
     (case x of Undefined \<Rightarrow> Fin 0 | Bool b \<Rightarrow> NaN | _ \<Rightarrow> toNumber x)"
| "toNumber (Arr (x # y # zs)) = NaN"
| "toNumber (Obj kvs) = NaN"

fun str_includes :: "jsstring \<Rightarrow> jsstring \<Rightarrow> bool" where
  \<comment> \<open>\<^verbatim>\<open>s.includes(k)\<close>\<close>
  "str_includes [] k = (k = [])"
| "str_includes (c # cs) k = (take (length k) (c # cs) = k \<or> str_includes cs k)"

text \<open>
  \<^verbatim>\<open>String.prototype.toLowerCase\<close> follows the Unicode case tables of the JavaScript
  engine (with mappings such as U+212A to k and a context rule for the Greek sigma), which
  are not part of the repository. The functions that call it take it as the parameter
  \<open>lower\<close>, and what is proved of them holds for every such function.
\<close>

definition asciiLower :: "jsstring \<Rightarrow> jsstring" where
  \<comment> \<open>not \<^verbatim>\<open>toLowerCase\<close> itself: the letters A to Z are lowered and every other code
      unit is kept. It is the value of \<open>lower\<close> in the evaluations on the sample pages,
      whose texts are ASCII and the euro sign, where \<^verbatim>\<open>toLowerCase\<close> does the same.\<close>
  "asciiLower s = map (\<lambda>c. if 0x41 \<le> c \<and> c \<le> 0x5A then c + 0x20 else c) s"

section \<open>The rendered page\<close>

text \<open>
  The browser is outside the program. Each strategy queries the page at most once per
  target, so the page of one loop iteration is the record of what each query would
  answer: a value, or \<open>Threw\<close> when the call rejects (a timeout, a missing element, a
  detached frame).
\<close>

datatype 'a outcome = Returned 'a | Threw

record meta =
  \<comment> \<open>\<^verbatim>\<open>getAttribute\<close> of a meta element: \<open>None\<close> is \<^verbatim>\<open>null\<close>\<close>
  attr_name :: "jsstring option"
  attr_property :: "jsstring option"
  attr_content :: "jsstring option"

record page =
  gotoError :: "jsstring option"
    \<comment> \<open>\<open>None\<close>: \<^verbatim>\<open>page.goto\<close> resolved; \<open>Some d\<close>: it rejected with an error \<^verbatim>\<open>err\<close>, and
        \<open>d\<close> is the text of \<^verbatim>\<open>err.message || err\<close>\<close>
  selectorText :: "jsstring \<Rightarrow> jsstring outcome"
    \<comment> \<open>\<^verbatim>\<open>waitForSelector\<close> then \<^verbatim>\<open>$eval\<close>: the element's
        \<^verbatim>\<open>innerText || textContent || ''\<close>\<close>
  ldjson :: "jsval option list outcome"
    \<comment> \<open>the \<^verbatim>\<open>application/ld+json\<close> scripts in document order, each with the outcome of
        \<^verbatim>\<open>JSON.parse\<close> on its text: \<open>None\<close> when it raises\<close>
  metas :: "meta list outcome"
  bodyElements :: "jsstring option list outcome"
    \<comment> \<open>\<^verbatim>\<open>el.innerText\<close> of every element of \<^verbatim>\<open>body *\<close> in document order
        (\<open>None\<close>: \<^verbatim>\<open>undefined\<close>), as \<^verbatim>\<open>page.evaluate\<close> sees them\<close>

section \<open>The four strategies\<close>

definition trySelector :: "page \<Rightarrow> jsstring \<Rightarrow> jsnum option" where
  "trySelector pg selector =
     (case selectorText pg selector of
        Threw \<Rightarrow> None
      | Returned raw \<Rightarrow> normalizeNumberString (Str (trim raw)))"

subsection \<open>Structured data\<close>

datatype scan = Return jsnum | Raise | Next

definition firstOffer :: "jsval \<Rightarrow> jsval" where
  \<comment> \<open>\<^verbatim>\<open>Array.isArray(item.offers) ? item.offers[0] : item.offers\<close>\<close>
  "firstOffer offers =
     (case offers of
        Arr xs \<Rightarrow> (case xs of [] \<Rightarrow> Undefined | x # _ \<Rightarrow> x)
      | _ \<Rightarrow> offers)"

definition offerPrice :: "jsval \<Rightarrow> jsval" where
  \<comment> \<open>\<^verbatim>\<open>offer.price || (offer.priceSpecification && offer.priceSpecification.price)\<close>\<close>
  "offerPrice offer =
     js_or (getProp offer (js ''price''))
           (js_and (getProp offer (js ''priceSpecification''))
                   (getProp (getProp offer (js ''priceSpecification'')) (js ''price'')))"

definition scanItem :: "jsval \<Rightarrow> scan" where
  \<comment> \<open>the body of \<^verbatim>\<open>for (const item of arr)\<close>: it returns from \<^verbatim>\<open>tryJSONLD\<close>, raises
      inside the \<^verbatim>\<open>try\<close>, or goes on to the next item\<close>
  "scanItem item =
     (if truthy (js_and item (getProp item (js ''offers''))) then
        (let offer = firstOffer (getProp item (js ''offers'')) in
         if truthy (js_and offer
                      (js_or (getProp offer (js ''price'')) (getProp offer (js ''priceSpecification''))))
         then (if truthy (offerPrice offer)
               then (if throwsOnConvert (offerPrice offer) then Raise
                     else Return (toNumber (offerPrice offer)))
               else Next)
         else Next)
      else Next)"

fun scanItems :: "jsval list \<Rightarrow> scan" where
  "scanItems [] = Next"
| "scanItems (item # items) =
     (case scanItem item of Next \<Rightarrow> scanItems items | Return v \<Rightarrow> Return v | Raise \<Rightarrow> Raise)"

definition scanScript :: "jsval option \<Rightarrow> scan" where
  \<comment> \<open>the \<^verbatim>\<open>try\<close> block for one script\<close>
  "scanScript txt =
     (case txt of
        None \<Rightarrow> Raise
      | Some parsed \<Rightarrow> scanItems (case parsed of Arr xs \<Rightarrow> xs | _ \<Rightarrow> [parsed]))"

fun scanScripts :: "jsval option list \<Rightarrow> jsnum option" where
  \<comment> \<open>\<^verbatim>\<open>for (const txt of data)\<close>: an exception is caught and ignored, the next script
      is tried\<close>
  "scanScripts [] = None"
| "scanScripts (txt # data) =
     (case scanScript txt of
        Return v \<Rightarrow> Some v
      | Raise \<Rightarrow> scanScripts data
      | Next \<Rightarrow> scanScripts data)"

definition tryJSONLD :: "page \<Rightarrow> jsnum option" where
  "tryJSONLD pg = (case ldjson pg of Threw \<Rightarrow> None | Returned data \<Rightarrow> scanScripts data)"

subsection \<open>Metadata\<close>

definition metaName :: "meta \<Rightarrow> jsstring option" where
  \<comment> \<open>\<^verbatim>\<open>m.getAttribute('name') || m.getAttribute('property')\<close>\<close>
  "metaName m =
     (case attr_name m of
        None \<Rightarrow> attr_property m
      | Some n \<Rightarrow> if n \<noteq> [] then Some n else attr_property m)"

definition metaPrice :: "(jsstring \<Rightarrow> jsstring) \<Rightarrow> meta \<Rightarrow> jsnum option" where
  \<comment> \<open>the body of \<^verbatim>\<open>for (const m of metas)\<close>: \<open>Some v\<close> when it returns \<open>v\<close>;
      \<open>lower n\<close> is \<^verbatim>\<open>(m.name || '').toLowerCase()\<close>\<close>
  "metaPrice lower m =
     (case metaName m of
        None \<Rightarrow> None
      | Some n \<Rightarrow>
          (case attr_content m of
             None \<Rightarrow> None
           | Some content \<Rightarrow>
               if n = [] \<or> content = [] then None
               else if str_includes (lower n) (js ''price'')
                       \<or> str_includes (lower n) (js ''og:price'')
                       \<or> str_includes (lower n) (js ''product:price:amount'')
               then normalizeNumberString (Str content)
               else None))"

fun scanMetas :: "(jsstring \<Rightarrow> jsstring) \<Rightarrow> meta list \<Rightarrow> jsnum option" where
  "scanMetas lower [] = None"
| "scanMetas lower (m # ms) =
     (case metaPrice lower m of Some v \<Rightarrow> Some v | None \<Rightarrow> scanMetas lower ms)"

definition tryMeta :: "(jsstring \<Rightarrow> jsstring) \<Rightarrow> page \<Rightarrow> jsnum option" where
  "tryMeta lower pg = (case metas pg of Threw \<Rightarrow> None | Returned ms \<Rightarrow> scanMetas lower ms)"

subsection \<open>Heuristic text search\<close>

definition keywordList :: "jsstring list" where
  "keywordList =
     [js ''ankauf'', js ''ankaufspreis'', js ''ankaufs'', js ''kaufpreis'', js ''ankaufswert'']"

definition findNumberInText :: "jsstring \<Rightarrow> jsstring option" where
  \<comment> \<open>\<^verbatim>\<open>m ? m[0] : null\<close>; a match holds at least one digit, so the callers' test
      \<^verbatim>\<open>if (num)\<close> is the test for \<^verbatim>\<open>null\<close>\<close>
  "findNumberInText t = matchNumber t"

definition elementText :: "jsstring option \<Rightarrow> jsstring" where
  \<comment> \<open>\<^verbatim>\<open>(el.innerText || '').trim()\<close>\<close>
  "elementText innerText = trim (case innerText of None \<Rightarrow> [] | Some s \<Rightarrow> s)"

fun keywordLoop :: "(jsstring \<Rightarrow> jsstring) \<Rightarrow> jsstring list \<Rightarrow> jsstring \<Rightarrow> jsstring option" where
  \<comment> \<open>\<^verbatim>\<open>for (const kw of keywords)\<close> on the text of one element; \<open>lower t\<close> is
      \<^verbatim>\<open>t.toLowerCase()\<close>\<close>
  "keywordLoop lower [] t = None"
| "keywordLoop lower (kw # kws) t =
     (if str_includes (lower t) kw
      then (case findNumberInText t of Some num \<Rightarrow> Some num | None \<Rightarrow> keywordLoop lower kws t)
      else keywordLoop lower kws t)"

fun keywordPass :: "(jsstring \<Rightarrow> jsstring) \<Rightarrow> jsstring option list \<Rightarrow> jsstring option" where
  \<comment> \<open>the first loop over the elements\<close>
  "keywordPass lower [] = None"
| "keywordPass lower (el # els) =
     (if elementText el = [] then keywordPass lower els
      else (case keywordLoop lower keywordList (elementText el) of
              Some num \<Rightarrow> Some num
            | None \<Rightarrow> keywordPass lower els))"

fun euroPass :: "jsstring option list \<Rightarrow> jsstring option" where
  \<comment> \<open>the fallback loop: the first element with a euro sign and a number\<close>
  "euroPass [] = None"
| "euroPass (el # els) =
     (if elementText el = [] then euroPass els
      else if 0x20AC \<in> set (elementText el)
      then (case findNumberInText (elementText el) of
              Some num \<Rightarrow> Some num
            | None \<Rightarrow> euroPass els)
      else euroPass els)"

definition heuristicFound :: "(jsstring \<Rightarrow> jsstring) \<Rightarrow> jsstring option list \<Rightarrow> jsstring option" where
  \<comment> \<open>the function evaluated in the browser\<close>
  "heuristicFound lower els =
     (case keywordPass lower els of Some num \<Rightarrow> Some num | None \<Rightarrow> euroPass els)"

definition tryHeuristic :: "(jsstring \<Rightarrow> jsstring) \<Rightarrow> page \<Rightarrow> jsnum option" where
  "tryHeuristic lower pg =
     (case bodyElements pg of
        Threw \<Rightarrow> None
      | Returned els \<Rightarrow>
          (case heuristicFound lower els of
             None \<Rightarrow> None
           | Some found \<Rightarrow> if found = [] then None else normalizeNumberString (Str found)))"


section \<open>The main loop\<close>

record coin =
  \<comment> \<open>an entry of \<^verbatim>\<open>coins.json\<close>, typed as the target of the specification: \<open>id\<close>,
      \<open>name\<close> and \<open>url\<close> are strings, a selector is a string when it is there (\<open>None\<close>:
      missing or \<^verbatim>\<open>null\<close>), \<open>metal\<close> and \<open>fineInGrams\<close> are any JSON value (\<open>Undefined\<close>:
      missing)\<close>
  coin_id :: jsstring
  coin_name :: jsstring
  coin_url :: jsstring
  coin_metal :: jsval
  coin_fineInGrams :: jsval
  coin_selector :: "jsstring option"

record result =
  r_id :: jsstring
  r_name :: jsstring
  r_url :: jsstring
  r_metal :: jsval
  r_fineInGrams :: jsval
  price_eur :: "jsnum option"
  ok :: bool
  r_notes :: "jsstring list"

datatype strategy = Selector | JSONLD | Meta | Heuristic

text \<open>
  The variables of one iteration of \<^verbatim>\<open>for (const coin of coins)\<close>. \<open>calls\<close> is not in the
  source: it logs each call of a strategy function with what it returned, in the order
  of the calls, so that the notes can be compared with the strategies that ran.
\<close>

record iteration =
  price :: "jsnum option"
  notes_list :: "jsstring list"
  calls :: "(strategy \<times> jsnum option) list"

definition push :: "jsstring \<Rightarrow> iteration \<Rightarrow> iteration" where
  \<comment> \<open>\<^verbatim>\<open>notes.push(n)\<close>\<close>
  "push n st = st\<lparr>notes_list := notes_list st @ [n]\<rparr>"

definition called :: "strategy \<Rightarrow> jsnum option \<Rightarrow> iteration \<Rightarrow> iteration" where
  "called s p st = st\<lparr>calls := calls st @ [(s, p)]\<rparr>"

definition step_goto :: "page \<Rightarrow> iteration \<Rightarrow> iteration" where
  "step_goto pg st =
     (case gotoError pg of
        None \<Rightarrow> st
      | Some detail \<Rightarrow> push (js ''page-load-failed: '' @ detail) st)"

definition step_selector :: "coin \<Rightarrow> page \<Rightarrow> iteration \<Rightarrow> iteration" where
  "step_selector c pg st =
     (case coin_selector c of
        None \<Rightarrow> st
      | Some s \<Rightarrow>
          if s \<noteq> [] \<and> trim s \<noteq> [] then
            (case trySelector pg s of
               Some p \<Rightarrow> push (js ''selector'') ((called Selector (Some p) st)\<lparr>price := Some p\<rparr>)
             | None \<Rightarrow> push (js ''selector-not-found'') (called Selector None st))
          else st)"

definition step_jsonld :: "page \<Rightarrow> iteration \<Rightarrow> iteration" where
  "step_jsonld pg st =
     (if price st = None then
        (case tryJSONLD pg of
           Some p \<Rightarrow> push (js ''json-ld'') ((called JSONLD (Some p) st)\<lparr>price := Some p\<rparr>)
         | None \<Rightarrow> called JSONLD None st)
      else st)"

definition step_meta :: "(jsstring \<Rightarrow> jsstring) \<Rightarrow> page \<Rightarrow> iteration \<Rightarrow> iteration" where
  "step_meta lower pg st =
     (if price st = None then
        (case tryMeta lower pg of
           Some p \<Rightarrow> push (js ''meta'') ((called Meta (Some p) st)\<lparr>price := Some p\<rparr>)
         | None \<Rightarrow> called Meta None st)
      else st)"

definition step_heuristic :: "(jsstring \<Rightarrow> jsstring) \<Rightarrow> page \<Rightarrow> iteration \<Rightarrow> iteration" where
  "step_heuristic lower pg st =
     (if price st = None then
        (case tryHeuristic lower pg of
           Some p \<Rightarrow> push (js ''heuristic'') ((called Heuristic (Some p) st)\<lparr>price := Some p\<rparr>)
         | None \<Rightarrow> push (js ''not-found'') (called Heuristic None st))
      else st)"

definition iterate :: "(jsstring \<Rightarrow> jsstring) \<Rightarrow> coin \<Rightarrow> page \<Rightarrow> iteration" where
  \<comment> \<open>the loop body up to the polite delay\<close>
  "iterate lower c pg =
     step_heuristic lower pg (step_meta lower pg (step_jsonld pg (step_selector c pg
       (step_goto pg \<lparr>price = None, notes_list = [], calls = []\<rparr>))))"

definition scrapeCoin :: "(jsstring \<Rightarrow> jsstring) \<Rightarrow> coin \<Rightarrow> page \<Rightarrow> result" where
  \<comment> \<open>the object pushed on \<^verbatim>\<open>results\<close>\<close>
  "scrapeCoin lower c pg =
     \<lparr>r_id = coin_id c, r_name = coin_name c, r_url = coin_url c,
      r_metal = js_or (coin_metal c) Null,
      r_fineInGrams = js_or (coin_fineInGrams c) Null,
      price_eur = price (iterate lower c pg),
      ok = (price (iterate lower c pg) \<noteq> None),
      r_notes = notes_list (iterate lower c pg)\<rparr>"

definition attempted :: "(jsstring \<Rightarrow> jsstring) \<Rightarrow> coin \<Rightarrow> page \<Rightarrow> (strategy \<times> jsnum option) list" where
  \<comment> \<open>the strategy calls of the iteration, with their results\<close>
  "attempted lower c pg = calls (iterate lower c pg)"

fun mainLoop :: "(jsstring \<Rightarrow> jsstring) \<Rightarrow> (coin \<times> page) list \<Rightarrow> result list \<Rightarrow> result list" where
  \<comment> \<open>\<^verbatim>\<open>for (const coin of coins)\<close>, each coin with the page its iteration meets\<close>
  "mainLoop lower [] results = results"
| "mainLoop lower ((c, pg) # rest) results =
     mainLoop lower rest (results @ [scrapeCoin lower c pg])"

record report =
  source :: jsstring
  generated_at :: jsstring
  items :: "result list"

definition run :: "(jsstring \<Rightarrow> jsstring) \<Rightarrow> (coin \<times> page) list \<Rightarrow> jsstring \<Rightarrow> report" where
  \<comment> \<open>the report built after the loop; \<open>now\<close> is \<^verbatim>\<open>(new Date()).toISOString()\<close>\<close>
  "run lower targets now =
     \<lparr>source = js ''philoro.at'', generated_at = now, items = mainLoop lower targets []\<rparr>"


section \<open>What the specification says of notes and prices\<close>

definition selectorGiven :: "coin \<Rightarrow> bool" where
  \<comment> \<open>the target has a configured selector: \<^verbatim>\<open>coin.selector && coin.selector.trim()\<close>\<close>
  "selectorGiven c =
     (case coin_selector c of None \<Rightarrow> False | Some s \<Rightarrow> s \<noteq> [] \<and> trim s \<noteq> [])"

definition selectorResult :: "coin \<Rightarrow> page \<Rightarrow> jsnum option" where
  \<comment> \<open>what the selector strategy finds for the target: nothing when no selector is
      configured\<close>
  "selectorResult c pg =
     (case coin_selector c of
        None \<Rightarrow> None
      | Some s \<Rightarrow> if selectorGiven c then trySelector pg s else None)"

definition gotoNote :: "page \<Rightarrow> jsstring list" where
  \<comment> \<open>the note of a failed navigation, when there is one\<close>
  "gotoNote pg =
     (case gotoError pg of None \<Rightarrow> [] | Some detail \<Rightarrow> [js ''page-load-failed: '' @ detail])"

definition isOutcomeTag :: "jsstring \<Rightarrow> bool" where
  \<comment> \<open>the outcome tags of the strategies, as the specification lists them\<close>
  "isOutcomeTag n =
     (n = js ''selector'' \<or> n = js ''selector-not-found'' \<or> n = js ''json-ld''
      \<or> n = js ''meta'' \<or> n = js ''heuristic'' \<or> n = js ''not-found'')"

fun noteOf :: "strategy \<times> jsnum option \<Rightarrow> jsstring list" where
  \<comment> \<open>the tag a strategy call leaves, by strategy and result: none for a structured-data
      or metadata call that found nothing\<close>
  "noteOf (Selector, Some v) = [js ''selector'']"
| "noteOf (Selector, None) = [js ''selector-not-found'']"
| "noteOf (JSONLD, Some v) = [js ''json-ld'']"
| "noteOf (JSONLD, None) = []"
| "noteOf (Meta, Some v) = [js ''meta'']"
| "noteOf (Meta, None) = []"
| "noteOf (Heuristic, Some v) = [js ''heuristic'']"
| "noteOf (Heuristic, None) = [js ''not-found'']"





definition startsWith :: "jsstring \<Rightarrow> jsstring \<Rightarrow> bool" where
  "startsWith s p = (take (length p) s = p)"

text \<open>
  A structured-data document with every price that is the number 0 taken out: the
  \<^verbatim>\<open>price\<close> of the offer the strategy reads, and the \<^verbatim>\<open>price\<close> of its
  \<^verbatim>\<open>priceSpecification\<close>.
\<close>

definition isZero :: "jsval \<Rightarrow> bool" where
  "isZero v = (case v of Num n \<Rightarrow> (case n of Fin q \<Rightarrow> q = 0 | _ \<Rightarrow> False) | _ \<Rightarrow> False)"

definition dropZeroPrice :: "jsval \<Rightarrow> jsval" where
  \<comment> \<open>an object without its \<^verbatim>\<open>price\<close> property, when that is the number 0\<close>
  "dropZeroPrice v =
     (case v of
        Obj kvs \<Rightarrow>
          if isZero (getProp v (js ''price''))
          then Obj (filter (\<lambda>kv. fst kv \<noteq> js ''price'') kvs)
          else v
      | _ \<Rightarrow> v)"

definition mapProp :: "jsstring \<Rightarrow> (jsval \<Rightarrow> jsval) \<Rightarrow> jsval \<Rightarrow> jsval" where
  \<comment> \<open>an object with \<open>f\<close> applied to the value of one property\<close>
  "mapProp k f v =
     (case v of
        Obj kvs \<Rightarrow> Obj (map (\<lambda>kv. if fst kv = k then (fst kv, f (snd kv)) else kv) kvs)
      | _ \<Rightarrow> v)"

definition zeroFreeOffer :: "jsval \<Rightarrow> jsval" where
  "zeroFreeOffer offer = dropZeroPrice (mapProp (js ''priceSpecification'') dropZeroPrice offer)"

definition zeroFreeOffers :: "jsval \<Rightarrow> jsval" where
  "zeroFreeOffers offers =
     (case offers of
        Arr xs \<Rightarrow> (case xs of [] \<Rightarrow> offers | x # rest \<Rightarrow> Arr (zeroFreeOffer x # rest))
      | _ \<Rightarrow> zeroFreeOffer offers)"

definition zeroFreeItem :: "jsval \<Rightarrow> jsval" where
  "zeroFreeItem item = mapProp (js ''offers'') zeroFreeOffers item"

definition zeroFreeScript :: "jsval option \<Rightarrow> jsval option" where
  "zeroFreeScript txt =
     (case txt of
        None \<Rightarrow> None
      | Some parsed \<Rightarrow>
          Some (case parsed of Arr xs \<Rightarrow> Arr (map zeroFreeItem xs) | _ \<Rightarrow> zeroFreeItem parsed))"

definition zeroFree :: "page \<Rightarrow> page" where
  "zeroFree pg =
     pg\<lparr>ldjson := (case ldjson pg of Threw \<Rightarrow> Threw
                   | Returned data \<Rightarrow> Returned (map zeroFreeScript data))\<rparr>"

definition itemsOf :: "jsval option \<Rightarrow> jsval list" where
  \<comment> \<open>the items of a script: none when it does not parse\<close>
  "itemsOf txt =
     (case txt of
        None \<Rightarrow> []
      | Some parsed \<Rightarrow> (case parsed of Arr xs \<Rightarrow> xs | _ \<Rightarrow> [parsed]))"

definition itemPrice :: "jsval \<Rightarrow> jsval" where
  \<comment> \<open>the price the strategy reads in an item\<close>
  "itemPrice item = offerPrice (firstOffer (getProp item (js ''offers'')))"

section \<open>Sample targets and pages\<close>

definition plainCoin :: coin where
  \<comment> \<open>a target without a selector\<close>
  "plainCoin =
     \<lparr>coin_id = js ''philharmoniker-1oz'', coin_name = js ''Philharmoniker'',
      coin_url = js ''https://philoro.at/p/1'', coin_metal = Str (js ''gold''),
      coin_fineInGrams = Undefined, coin_selector = None\<rparr>"

definition selectorCoin :: coin where
  "selectorCoin = plainCoin\<lparr>coin_selector := Some (js ''.price'')\<rparr>"

definition blankPage :: page where
  \<comment> \<open>a page that loaded and holds nothing: no element for any selector, no script, no
      meta element, no element in the body\<close>
  "blankPage =
     \<lparr>gotoError = None, selectorText = (\<lambda>sel. Threw), ldjson = Returned [],
      metas = Returned [], bodyElements = Returned []\<rparr>"

definition ankaufText :: jsstring where
  \<comment> \<open>the text "Ankaufspreis: 1.050,00" followed by a space and the euro sign\<close>
  "ankaufText = js ''Ankaufspreis: 1.050,00 '' @ [0x20AC]"

definition ankaufLower :: jsstring where
  \<comment> \<open>the same text in lower case, as \<^verbatim>\<open>toLowerCase\<close> gives it\<close>
  "ankaufLower = js ''ankaufspreis: 1.050,00 '' @ [0x20AC]"

definition ankaufPage :: page where
  "ankaufPage = blankPage\<lparr>bodyElements := Returned [Some ankaufText]\<rparr>"

definition wrapperPage :: page where
  \<comment> \<open>an element with a keyword and another number stands before the price element\<close>
  "wrapperPage = blankPage\<lparr>bodyElements := Returned [Some (js ''Ankauf 5''), Some ankaufText]\<rparr>"

definition offerWith :: "jsval \<Rightarrow> jsval" where
  \<comment> \<open>the parsed script \<^verbatim>\<open>{"offers": {"price": v}}\<close>\<close>
  "offerWith v = Obj [(js ''offers'', Obj [(js ''price'', v)])]"

definition textPricePage :: page where
  "textPricePage = blankPage\<lparr>ldjson := Returned [Some (offerWith (Str (js ''abc'')))]\<rparr>"

definition zeroStringPage :: page where
  "zeroStringPage = blankPage\<lparr>ldjson := Returned [Some (offerWith (Str (js ''0'')))]\<rparr>"

definition zeroNumberPage :: page where
  "zeroNumberPage = blankPage\<lparr>ldjson := Returned [Some (offerWith (Num (Fin 0)))]\<rparr>"

definition selectorPage :: page where
  \<comment> \<open>the selector's element reads 1.234,56 and the structured data has a price too\<close>
  "selectorPage =
     blankPage\<lparr>selectorText := (\<lambda>sel. Returned (js ''1.234,56'')),
               ldjson := Returned [Some (offerWith (Num (Fin 99)))]\<rparr>"

definition stalePage :: page where
  \<comment> \<open>navigation timed out, the document is there all the same\<close>
  "stalePage = selectorPage\<lparr>gotoError := Some (js ''Navigation timeout'')\<rparr>"

definition failedPage :: page where
  \<comment> \<open>navigation failed and nothing is found\<close>
  "failedPage = blankPage\<lparr>gotoError := Some (js ''net::ERR_FAILED'')\<rparr>"


definition shopPage :: page where
  \<comment> \<open>the price element between an element without keyword and a later keyword element\<close>
  "shopPage =
     blankPage\<lparr>bodyElements :=
       Returned [Some (js ''Goldpreis 2.000 EUR''), Some ankaufText, Some (js ''Ankauf 5'')]\<rparr>"

definition sampleBatch :: "(coin \<times> page) list" where
  \<comment> \<open>a target whose navigation fails, then one that is found by the heuristic\<close>
  "sampleBatch = [(selectorCoin, failedPage), (plainCoin, ankaufPage)]"

definition sampleTime :: jsstring where
  "sampleTime = js ''2024-05-01T06:00:00.000Z''"

section \<open>Evaluation and unfolding rules\<close>

lemmas js_eval = js_def isDigit_def isWhiteSpace_def trim_def isGroupSep_def isDecimalSep_def fraction_def
  matchAt_def digitsVal_def scale10_def scanExponent_def scanUnsigned_def Infinity_str_def scanDecimal_def
  parseFloat_def normalizeNumberString_def toDouble_def DBL_OVERFLOW_def Let_def
  js_or_def js_and_def hexDigit_def radixLiteral_def StringToNumber_def asciiLower_def
  trySelector_def firstOffer_def offerPrice_def scanItem_def scanScript_def tryJSONLD_def metaName_def metaPrice_def
  tryMeta_def keywordList_def findNumberInText_def elementText_def heuristicFound_def tryHeuristic_def
  push_def called_def step_goto_def step_selector_def step_jsonld_def step_meta_def step_heuristic_def
  iterate_def scrapeCoin_def attempted_def run_def selectorGiven_def gotoNote_def isOutcomeTag_def startsWith_def
  plainCoin_def selectorCoin_def blankPage_def ankaufText_def ankaufLower_def ankaufPage_def wrapperPage_def offerWith_def
  textPricePage_def zeroStringPage_def zeroNumberPage_def selectorPage_def stalePage_def failedPage_def shopPage_def
  sampleBatch_def sampleTime_def

lemmas loop_defs = scrapeCoin_def attempted_def iterate_def step_goto_def step_selector_def step_jsonld_def
  step_meta_def step_heuristic_def push_def called_def gotoNote_def selectorGiven_def

section \<open>The normalizer\<close>

lemma matchAt_nonempty: "matchAt xs = Some m \<Longrightarrow> m \<noteq> []"
  by (auto simp: matchAt_def split: if_splits prod.splits)

lemma matchNumber_nonempty: "matchNumber s = Some m \<Longrightarrow> m \<noteq> []"
  by (induction s) (auto split: option.splits dest: matchAt_nonempty)

lemma matchNumber_digit: "matchNumber s = None \<longleftrightarrow> \<not> list_ex isDigit s"
proof (induction s)
  case Nil
  then show ?case by simp
next
  case (Cons c cs)
  have "matchAt (c # cs) = None \<longleftrightarrow> \<not> isDigit c"
    by (auto simp: matchAt_def split: prod.splits)
  then show ?case using Cons by (auto split: option.splits)
qed


text \<open>
  C4: the normalizer satisfies the five test equations of the specification:
  "1.234,56" gives 1234.56, "1 234,56" followed by a space and the euro sign gives
  1234.56, "kein Preis" gives null, null gives null, and "99,99" gives 99.99.
\<close>

theorem C4_normalizer_examples:
  "normalizeNumberString (Str (js ''1.234,56'')) = Some (Fin 1234.56)
   \<and> normalizeNumberString (Str (js ''1 234,56 '' @ [0x20AC])) = Some (Fin 1234.56)
   \<and> normalizeNumberString (Str (js ''kein Preis'')) = None
   \<and> normalizeNumberString Null = None
   \<and> normalizeNumberString (Str (js ''99,99'')) = Some (Fin 99.99)"
proof -
  have a: "normalizeNumberString (Str (js ''1.234,56'')) = Some (Fin 1234.56)"
    by (simp add: js_eval)
  have b: "normalizeNumberString (Str (js ''1 234,56 '' @ [0x20AC])) = Some (Fin 1234.56)"
    by (simp add: js_eval)
  have c: "normalizeNumberString (Str (js ''kein Preis'')) = None"
    by (simp add: js_eval)
  have d: "normalizeNumberString Null = None"
    by (simp add: normalizeNumberString_def)
  have e: "normalizeNumberString (Str (js ''99,99'')) = Some (Fin 99.99)"
    by (simp add: js_eval)
  show ?thesis using a b c d e by blast
qed

text \<open>
  C9: for the input "1234.56" the normalizer does not give 123456. The pattern starts with
  one to three digits and a group needs a separator, so the match is "123" and the result
  is 123; the digits after it are lost.
\<close>

theorem C9_plain_decimal_truncated:
  "normalizeNumberString (Str (js ''1234.56'')) = Some (Fin 123)
   \<and> normalizeNumberString (Str (js ''1234.56'')) \<noteq> Some (Fin 123456)"
  by (simp add: js_eval)

section \<open>The strategy chain\<close>






lemma notes_of_calls:
  "notes_list (iterate lower c pg) = gotoNote pg @ concat (map noteOf (calls (iterate lower c pg)))"
  by (simp add: loop_defs split: option.splits)






text \<open>
  C1, as the code has it: the notes of a target are the note of a failed navigation, if
  any, followed by the tags of the strategy calls in the order of the calls, where a
  selector call leaves "selector" or "selector-not-found", a structured-data call
  "json-ld" only when it found a price, a metadata call "meta" only when it found a price,
  and a heuristic call "heuristic" or "not-found". A failed structured-data or metadata
  call leaves no tag.
\<close>

theorem C1_notes_follow_calls:
  "r_notes (scrapeCoin lower c pg) = gotoNote pg @ concat (map noteOf (attempted lower c pg))"
  by (simp add: scrapeCoin_def attempted_def notes_of_calls)

text \<open>
  Against C1 as stated (one outcome tag for every strategy attempted): on a blank page and
  a target without selector three strategies are called and fail, and the only note is
  "not-found".
\<close>

theorem C1_counterexample:
  "attempted asciiLower plainCoin blankPage = [(JSONLD, None), (Meta, None), (Heuristic, None)]
   \<and> r_notes (scrapeCoin asciiLower plainCoin blankPage) = [js ''not-found'']
   \<and> length (filter isOutcomeTag (r_notes (scrapeCoin asciiLower plainCoin blankPage)))
       \<noteq> length (attempted asciiLower plainCoin blankPage)"
  by (simp add: js_eval)




lemma mainLoop_eq: "mainLoop lower ts acc = acc @ map (\<lambda>(c, pg). scrapeCoin lower c pg) ts"
  by (induction ts arbitrary: acc) auto

text \<open>
  C3: every result of the batch has \<open>ok\<close> true exactly when its price is not null.
\<close>

theorem C3_ok_iff_price:
  "r \<in> set (items (run lower targets now)) \<Longrightarrow> ok r = (price_eur r \<noteq> None)"
  by (auto simp: run_def mainLoop_eq scrapeCoin_def)

theorem C3_ok_iff_price_witness:
  "scrapeCoin asciiLower plainCoin ankaufPage \<in> set (items (run asciiLower sampleBatch sampleTime))
   \<and> ok (scrapeCoin asciiLower plainCoin ankaufPage)
       = (price_eur (scrapeCoin asciiLower plainCoin ankaufPage) \<noteq> None)"
proof -
  have a: "scrapeCoin asciiLower plainCoin ankaufPage \<in> set (items (run asciiLower sampleBatch sampleTime))"
    by (simp add: run_def sampleBatch_def)
  show ?thesis using C3_ok_iff_price[OF a] a by blast
qed

text \<open>
  C5, as the code has it: for a target with a configured selector whose element is found
  and whose text normalizes to a value, that value is the final price, the selector
  strategy is the only one called, and the notes are "selector" alone, after the note of a
  failed navigation when there is one.
\<close>

theorem C5_selector_wins:
  assumes "coin_selector c = Some s" and "selectorGiven c"
    and "selectorText pg s = Returned raw"
    and "normalizeNumberString (Str (trim raw)) = Some v"
  shows "price_eur (scrapeCoin lower c pg) = Some v \<and> ok (scrapeCoin lower c pg)
       \<and> attempted lower c pg = [(Selector, Some v)]
       \<and> r_notes (scrapeCoin lower c pg) = gotoNote pg @ [js ''selector'']"
  using assms by (simp add: loop_defs trySelector_def split: option.splits)

theorem C5_selector_wins_witness:
  "coin_selector selectorCoin = Some (js ''.price'') \<and> selectorGiven selectorCoin
   \<and> selectorText selectorPage (js ''.price'') = Returned (js ''1.234,56'')
   \<and> normalizeNumberString (Str (trim (js ''1.234,56''))) = Some (Fin 1234.56)
   \<and> tryJSONLD selectorPage = Some (Fin 99)
   \<and> price_eur (scrapeCoin asciiLower selectorCoin selectorPage) = Some (Fin 1234.56)
   \<and> ok (scrapeCoin asciiLower selectorCoin selectorPage)
   \<and> attempted asciiLower selectorCoin selectorPage = [(Selector, Some (Fin 1234.56))]
   \<and> r_notes (scrapeCoin asciiLower selectorCoin selectorPage) = [js ''selector'']"
proof -
  have a: "coin_selector selectorCoin = Some (js ''.price'')"
    by (simp add: selectorCoin_def plainCoin_def)
  have b: "selectorGiven selectorCoin"
    by (simp add: js_eval)
  have c: "selectorText selectorPage (js ''.price'') = Returned (js ''1.234,56'')"
    by (simp add: selectorPage_def blankPage_def)
  have d: "normalizeNumberString (Str (trim (js ''1.234,56''))) = Some (Fin 1234.56)"
    by (simp add: js_eval)
  have e: "tryJSONLD selectorPage = Some (Fin 99)"
    by (simp add: js_eval)
  have g: "gotoNote selectorPage = []"
    by (simp add: gotoNote_def selectorPage_def blankPage_def)
  show ?thesis using C5_selector_wins[OF a b c d] a b c d e g by simp
qed

text \<open>
  Against C5 as stated (the notes are exactly "selector"): when the navigation timed out
  and the selector's element is found all the same, the notes are the navigation note
  followed by "selector".
\<close>

theorem C5_counterexample:
  "selectorGiven selectorCoin
   \<and> trySelector stalePage (js ''.price'') = Some (Fin 1234.56)
   \<and> price_eur (scrapeCoin asciiLower selectorCoin stalePage) = Some (Fin 1234.56)
   \<and> r_notes (scrapeCoin asciiLower selectorCoin stalePage)
       = [js ''page-load-failed: Navigation timeout'', js ''selector'']
   \<and> r_notes (scrapeCoin asciiLower selectorCoin stalePage) \<noteq> [js ''selector'']"
  by (simp add: js_eval)

lemma keywordPass_append:
  "keywordPass lower pre = None \<Longrightarrow> keywordPass lower (pre @ els) = keywordPass lower els"
  by (induction pre) (auto split: if_splits option.splits)

lemma keywordPass_ankauf:
  assumes "lower ankaufText = ankaufLower"
  shows "keywordPass lower (Some ankaufText # post) = Some (js ''1.050,00'')"
  using assms by (simp add: js_eval)

lemma normalize_1050: "normalizeNumberString (Str (js ''1.050,00'')) = Some (Fin 1050)"
  by (simp add: js_eval)

text \<open>
  C6, as the code has it: for a target without configured selector, on a page where the
  structured-data and metadata strategies find nothing and whose body has an element with
  the text "Ankaufspreis: 1.050,00" and the euro sign, the result has the price 1050,
  \<open>ok\<close> true and notes that end with "heuristic", provided that no element before it in
  document order has a text with a keyword and a number. \<open>lower\<close> is the engine's
  \<^verbatim>\<open>toLowerCase\<close>, which gives "ankaufspreis: 1.050,00" and the euro sign on that text.
\<close>

theorem C6_heuristic_fallback:
  assumes "\<not> selectorGiven c" and "tryJSONLD pg = None" and "tryMeta lower pg = None"
    and "bodyElements pg = Returned (pre @ Some ankaufText # post)"
    and "keywordPass lower pre = None"
    and "lower ankaufText = ankaufLower"
  shows "price_eur (scrapeCoin lower c pg) = Some (Fin 1050) \<and> ok (scrapeCoin lower c pg)
       \<and> last (r_notes (scrapeCoin lower c pg)) = js ''heuristic''"
proof -
  have "keywordPass lower (pre @ Some ankaufText # post) = Some (js ''1.050,00'')"
    by (simp only: keywordPass_append[OF assms(5)] keywordPass_ankauf[of lower, OF assms(6)])
  then have "heuristicFound lower (pre @ Some ankaufText # post) = Some (js ''1.050,00'')"
    by (simp add: heuristicFound_def)
  then have h: "tryHeuristic lower pg = Some (Fin 1050)"
    using assms(4) normalize_1050 by (simp add: tryHeuristic_def js_def)
  show ?thesis
    using assms(1-3) h by (auto simp: loop_defs split: option.splits)
qed

theorem C6_heuristic_fallback_witness:
  "\<not> selectorGiven plainCoin \<and> tryJSONLD shopPage = None \<and> tryMeta asciiLower shopPage = None
   \<and> bodyElements shopPage
       = Returned ([Some (js ''Goldpreis 2.000 EUR'')] @ Some ankaufText # [Some (js ''Ankauf 5'')])
   \<and> keywordPass asciiLower [Some (js ''Goldpreis 2.000 EUR'')] = None
   \<and> asciiLower ankaufText = ankaufLower
   \<and> price_eur (scrapeCoin asciiLower plainCoin shopPage) = Some (Fin 1050)
   \<and> ok (scrapeCoin asciiLower plainCoin shopPage)
   \<and> last (r_notes (scrapeCoin asciiLower plainCoin shopPage)) = js ''heuristic''"
proof -
  have a: "\<not> selectorGiven plainCoin"
    by (simp add: selectorGiven_def plainCoin_def)
  have b: "tryJSONLD shopPage = None"
    by (simp add: tryJSONLD_def shopPage_def blankPage_def)
  have c: "tryMeta asciiLower shopPage = None"
    by (simp add: tryMeta_def shopPage_def blankPage_def)
  have d: "bodyElements shopPage
       = Returned ([Some (js ''Goldpreis 2.000 EUR'')] @ Some ankaufText # [Some (js ''Ankauf 5'')])"
    by (simp add: shopPage_def blankPage_def)
  have e: "keywordPass asciiLower [Some (js ''Goldpreis 2.000 EUR'')] = None"
    by (simp add: js_eval)
  have f: "asciiLower ankaufText = ankaufLower"
    by (simp add: js_eval)
  show ?thesis using C6_heuristic_fallback[OF a b c d e f] a b c d e f by blast
qed

text \<open>
  Against C6 as stated: when an element with a keyword and another number ("Ankauf 5")
  stands before the element with the text of the claim, the price is 5.
\<close>

theorem C6_counterexample:
  "\<not> selectorGiven plainCoin
   \<and> ldjson wrapperPage = Returned [] \<and> metas wrapperPage = Returned []
   \<and> bodyElements wrapperPage = Returned [Some (js ''Ankauf 5''), Some ankaufText]
   \<and> price_eur (scrapeCoin asciiLower plainCoin wrapperPage) = Some (Fin 5)
   \<and> price_eur (scrapeCoin asciiLower plainCoin wrapperPage) \<noteq> Some (Fin 1050)"
  by (simp add: js_eval)

text \<open>
  C7: when all four strategies fail for a target (the selector strategy finds no value,
  whether it is attempted and fails or no selector is configured, and the structured-data,
  metadata and heuristic strategies find nothing), the result has a null price, \<open>ok\<close>
  false, and notes that end with "not-found".
\<close>

theorem C7_total_failure:
  assumes "selectorResult c pg = None"
    and "tryJSONLD pg = None" and "tryMeta lower pg = None" and "tryHeuristic lower pg = None"
  shows "price_eur (scrapeCoin lower c pg) = None \<and> \<not> ok (scrapeCoin lower c pg)
       \<and> last (r_notes (scrapeCoin lower c pg)) = js ''not-found''"
  using assms by (auto simp: loop_defs selectorResult_def split: option.splits if_splits)

theorem C7_total_failure_witness:
  "selectorGiven selectorCoin \<and> selectorResult selectorCoin failedPage = None
   \<and> tryJSONLD failedPage = None \<and> tryMeta asciiLower failedPage = None \<and> tryHeuristic asciiLower failedPage = None
   \<and> price_eur (scrapeCoin asciiLower selectorCoin failedPage) = None
   \<and> \<not> ok (scrapeCoin asciiLower selectorCoin failedPage)
   \<and> last (r_notes (scrapeCoin asciiLower selectorCoin failedPage)) = js ''not-found''"
proof -
  have g: "selectorGiven selectorCoin"
    by (simp add: js_eval)
  have a: "selectorResult selectorCoin failedPage = None"
    by (simp add: selectorResult_def selectorCoin_def plainCoin_def trySelector_def
        failedPage_def blankPage_def)
  have b: "tryJSONLD failedPage = None"
    by (simp add: tryJSONLD_def failedPage_def blankPage_def)
  have c: "tryMeta asciiLower failedPage = None"
    by (simp add: tryMeta_def failedPage_def blankPage_def)
  have d: "tryHeuristic asciiLower failedPage = None"
    by (simp add: tryHeuristic_def heuristicFound_def failedPage_def blankPage_def)
  show ?thesis using C7_total_failure[OF a b c d] g a b c d by blast
qed

text \<open>
  C8: the report has one result per target, in input order, each the result of that
  target's own iteration; a failed navigation puts a note that begins with
  "page-load-failed:" first in that target's notes, and the loop goes on.
\<close>

theorem C8_batch_complete:
  "items (run lower targets now) = map (\<lambda>(c, pg). scrapeCoin lower c pg) targets
   \<and> length (items (run lower targets now)) = length targets
   \<and> (\<forall>i<length targets. \<forall>d. gotoError (snd (targets ! i)) = Some d \<longrightarrow>
         r_notes (items (run lower targets now) ! i) \<noteq> []
       \<and> startsWith (hd (r_notes (items (run lower targets now) ! i))) (js ''page-load-failed:''))"
proof -
  have a: "items (run lower targets now) = map (\<lambda>(c, pg). scrapeCoin lower c pg) targets"
    by (simp add: run_def mainLoop_eq)
  have b: "gotoError pg = Some d \<Longrightarrow> r_notes (scrapeCoin lower c pg) \<noteq> []
       \<and> startsWith (hd (r_notes (scrapeCoin lower c pg))) (js ''page-load-failed:'')" for c pg d
    by (simp add: scrapeCoin_def notes_of_calls gotoNote_def startsWith_def js_def)
  show ?thesis
    using a b by (auto simp: split_def)
qed


theorem C8_batch_complete_witness:
  "items (run asciiLower sampleBatch sampleTime)
     = [scrapeCoin asciiLower selectorCoin failedPage, scrapeCoin asciiLower plainCoin ankaufPage]
   \<and> length (items (run asciiLower sampleBatch sampleTime)) = length sampleBatch
   \<and> gotoError (snd (sampleBatch ! 0)) = Some (js ''net::ERR_FAILED'')
   \<and> r_notes (items (run asciiLower sampleBatch sampleTime) ! 0) \<noteq> []
   \<and> startsWith (hd (r_notes (items (run asciiLower sampleBatch sampleTime) ! 0))) (js ''page-load-failed:'')"
proof -
  note bc = C8_batch_complete[of asciiLower sampleBatch sampleTime]
  have a: "items (run asciiLower sampleBatch sampleTime)
     = [scrapeCoin asciiLower selectorCoin failedPage, scrapeCoin asciiLower plainCoin ankaufPage]"
    using bc by (simp add: sampleBatch_def)
  have b: "length (items (run asciiLower sampleBatch sampleTime)) = length sampleBatch"
    using bc by blast
  have i: "0 < length sampleBatch"
    by (simp add: sampleBatch_def)
  have g: "gotoError (snd (sampleBatch ! 0)) = Some (js ''net::ERR_FAILED'')"
    by (simp add: sampleBatch_def failedPage_def blankPage_def)
  have c: "r_notes (items (run asciiLower sampleBatch sampleTime) ! 0) \<noteq> []
   \<and> startsWith (hd (r_notes (items (run asciiLower sampleBatch sampleTime) ! 0))) (js ''page-load-failed:'')"
    using bc i g by blast
  show ?thesis using a b g c by blast
qed

section \<open>Structured data and the price 0\<close>

lemma key_neq: "js ''priceSpecification'' \<noteq> js ''price''" "js ''price'' \<noteq> js ''priceSpecification''"
  by (simp_all add: js_def)

lemma map_of_without:
  "map_of (filter (\<lambda>kv. fst kv \<noteq> k) kvs) k' = (if k' = k then None else map_of kvs k')"
  by (induction kvs) auto

lemma map_of_mapped:
  "map_of (map (\<lambda>kv. if fst kv = k then (fst kv, f (snd kv)) else kv) kvs) k' =
     (if k' = k then map_option f (map_of kvs k') else map_of kvs k')"
  by (induction kvs) auto

lemma getProp_dropZeroPrice:
  "getProp (dropZeroPrice v) k =
     (if k = js ''price'' \<and> isZero (getProp v k) then Undefined else getProp v k)"
  by (cases v) (auto simp: dropZeroPrice_def map_of_without split: option.splits)

lemma getProp_mapProp:
  "f Undefined = Undefined \<Longrightarrow>
   getProp (mapProp k f v) k' = (if k' = k then f (getProp v k') else getProp v k')"
  by (cases v) (auto simp: mapProp_def map_of_mapped split: option.splits)

lemma truthy_dropZeroPrice: "truthy (dropZeroPrice v) = truthy v"
  by (cases v) (auto simp: dropZeroPrice_def)

lemma truthy_mapProp: "truthy (mapProp k f v) = truthy v"
  by (cases v) (auto simp: mapProp_def)

lemma dropZeroPrice_Undefined: "dropZeroPrice Undefined = Undefined"
  by (simp add: dropZeroPrice_def)

lemma isZero_falsy: "isZero v \<Longrightarrow> \<not> truthy v"
  by (auto simp: isZero_def split: jsval.splits jsnum.splits)

lemma truthy_zeroFreeOffer: "truthy (zeroFreeOffer offer) = truthy offer"
  by (simp add: zeroFreeOffer_def truthy_dropZeroPrice truthy_mapProp)

lemma price_zeroFreeOffer:
  "getProp (zeroFreeOffer offer) (js ''price'') =
     (if isZero (getProp offer (js ''price'')) then Undefined else getProp offer (js ''price''))"
  by (simp add: zeroFreeOffer_def getProp_dropZeroPrice getProp_mapProp dropZeroPrice_Undefined key_neq)

lemma spec_zeroFreeOffer:
  "getProp (zeroFreeOffer offer) (js ''priceSpecification'') =
     dropZeroPrice (getProp offer (js ''priceSpecification''))"
  by (simp add: zeroFreeOffer_def getProp_dropZeroPrice getProp_mapProp dropZeroPrice_Undefined key_neq)

lemma offerPrice_zeroFreeOffer:
  "truthy (offerPrice offer) \<Longrightarrow> offerPrice (zeroFreeOffer offer) = offerPrice offer"
  "truthy (offerPrice (zeroFreeOffer offer)) = truthy (offerPrice offer)"
  by (auto simp: offerPrice_def js_or_def js_and_def price_zeroFreeOffer spec_zeroFreeOffer
      getProp_dropZeroPrice truthy_dropZeroPrice dest: isZero_falsy)

lemma zeroFreeOffer_Undefined: "zeroFreeOffer Undefined = Undefined"
  by (simp add: zeroFreeOffer_def mapProp_def dropZeroPrice_def)

lemma firstOffer_zeroFreeOffers: "firstOffer (zeroFreeOffers offers) = zeroFreeOffer (firstOffer offers)"
  by (cases offers)
     (auto simp: zeroFreeOffers_def firstOffer_def zeroFreeOffer_Undefined zeroFreeOffer_def
        mapProp_def dropZeroPrice_def split: list.splits)

lemma truthy_zeroFreeOffers: "truthy (zeroFreeOffers offers) = truthy offers"
  by (cases offers) (auto simp: zeroFreeOffers_def truthy_zeroFreeOffer split: list.splits)

lemma zeroFreeOffers_Undefined: "zeroFreeOffers Undefined = Undefined"
  by (simp add: zeroFreeOffers_def zeroFreeOffer_Undefined)

lemma offers_zeroFreeItem:
  "getProp (zeroFreeItem item) (js ''offers'') = zeroFreeOffers (getProp item (js ''offers''))"
  by (simp add: zeroFreeItem_def getProp_mapProp zeroFreeOffers_Undefined)

lemma truthy_zeroFreeItem: "truthy (zeroFreeItem item) = truthy item"
  by (simp add: zeroFreeItem_def truthy_mapProp)

lemma guard_zeroFreeOffer:
  "truthy (js_or (getProp (zeroFreeOffer offer) (js ''price''))
                 (getProp (zeroFreeOffer offer) (js ''priceSpecification''))) =
   truthy (js_or (getProp offer (js ''price'')) (getProp offer (js ''priceSpecification'')))"
  by (auto simp: js_or_def price_zeroFreeOffer spec_zeroFreeOffer truthy_dropZeroPrice
      dest: isZero_falsy)

lemma scanItem_zeroFreeItem: "scanItem (zeroFreeItem item) = scanItem item"
proof -
  let ?o = "firstOffer (getProp item (js ''offers''))"
  have a: "truthy (js_and (zeroFreeItem item) (getProp (zeroFreeItem item) (js ''offers''))) =
           truthy (js_and item (getProp item (js ''offers'')))"
    by (simp add: js_and_def truthy_zeroFreeItem offers_zeroFreeItem truthy_zeroFreeOffers)
  have b: "firstOffer (getProp (zeroFreeItem item) (js ''offers'')) = zeroFreeOffer ?o"
    by (simp add: offers_zeroFreeItem firstOffer_zeroFreeOffers)
  have c: "truthy (js_and (zeroFreeOffer ?o)
              (js_or (getProp (zeroFreeOffer ?o) (js ''price''))
                     (getProp (zeroFreeOffer ?o) (js ''priceSpecification'')))) =
           truthy (js_and ?o (js_or (getProp ?o (js ''price'')) (getProp ?o (js ''priceSpecification''))))"
    using guard_zeroFreeOffer[of ?o] by (simp add: js_and_def truthy_zeroFreeOffer)
  show ?thesis
    unfolding scanItem_def Let_def a b c
    using offerPrice_zeroFreeOffer[of ?o] by auto
qed

lemma scanItems_zeroFree: "scanItems (map zeroFreeItem xs) = scanItems xs"
  by (induction xs) (simp_all add: scanItem_zeroFreeItem split: scan.splits)

lemma itemsOf_zeroFreeScript: "itemsOf (zeroFreeScript script) = map zeroFreeItem (itemsOf script)"
proof (cases script)
  case None
  then show ?thesis by (simp add: zeroFreeScript_def itemsOf_def)
next
  case (Some parsed)
  then show ?thesis
    by (cases parsed) (simp_all add: zeroFreeScript_def itemsOf_def zeroFreeItem_def mapProp_def)
qed

lemma scanScript_Some: "scanScript (Some parsed) = scanItems (itemsOf (Some parsed))"
  by (simp add: scanScript_def itemsOf_def)

lemma scanScript_zeroFree: "scanScript (zeroFreeScript script) = scanScript script"
proof (cases script)
  case None
  then show ?thesis by (simp add: zeroFreeScript_def)
next
  case (Some parsed)
  then obtain y where y: "zeroFreeScript script = Some y"
    by (simp add: zeroFreeScript_def)
  have "scanScript (zeroFreeScript script) = scanItems (itemsOf (zeroFreeScript script))"
    by (simp add: y scanScript_Some)
  also have "\<dots> = scanItems (itemsOf script)"
    by (simp add: itemsOf_zeroFreeScript scanItems_zeroFree)
  also have "\<dots> = scanScript script"
    by (simp add: Some scanScript_Some)
  finally show ?thesis .
qed

lemma scanScripts_zeroFree: "scanScripts (map zeroFreeScript data) = scanScripts data"
  by (induction data) (simp_all add: scanScript_zeroFree split: scan.splits)

lemma tryJSONLD_zeroFree: "tryJSONLD (zeroFree pg) = tryJSONLD pg"
  by (simp add: tryJSONLD_def zeroFree_def scanScripts_zeroFree split: outcome.splits)

lemma scanItem_no_price: "\<not> truthy (itemPrice item) \<Longrightarrow> scanItem item = Next"
  by (simp add: scanItem_def itemPrice_def Let_def)

lemma scanItems_no_price:
  "list_all (\<lambda>item. \<not> truthy (itemPrice item)) xs \<Longrightarrow> scanItems xs = Next"
  by (induction xs) (simp_all add: scanItem_no_price)

lemma scanScript_no_price:
  "list_all (\<lambda>item. \<not> truthy (itemPrice item)) (itemsOf script) \<Longrightarrow> scanScript script \<noteq> Return v"
proof (cases script)
  case None
  then show ?thesis by (simp add: scanScript_def)
next
  case (Some parsed)
  assume "list_all (\<lambda>item. \<not> truthy (itemPrice item)) (itemsOf script)"
  then have "scanItems (itemsOf script) = Next" by (rule scanItems_no_price)
  then show ?thesis by (simp add: Some scanScript_Some)
qed

lemma scanScripts_no_price:
  "list_all (\<lambda>s. list_all (\<lambda>item. \<not> truthy (itemPrice item)) (itemsOf s)) data
   \<Longrightarrow> scanScripts data = None"
proof (induction data)
  case Nil
  then show ?case by simp
next
  case (Cons script data)
  have nr: "scanScript script \<noteq> Return v" for v
    using Cons.prems scanScript_no_price[of script v] by simp
  show ?case using Cons nr by (cases "scanScript script") auto
qed

text \<open>
  C10, as the code has it: a price that is the number 0 (the \<^verbatim>\<open>price\<close> of the offer, or of
  its \<^verbatim>\<open>priceSpecification\<close>) is skipped by the truthiness guard, and the strategy goes on
  as if that price were not in the document; it finds nothing when no truthy price is
  left. A truthy price that converts to zero, such as the string "0", is returned.
\<close>

theorem C10_zero_price_skipped:
  "tryJSONLD pg = tryJSONLD (zeroFree pg)
   \<and> (\<forall>data. ldjson (zeroFree pg) = Returned data
         \<longrightarrow> list_all (\<lambda>txt. list_all (\<lambda>item. \<not> truthy (itemPrice item)) (itemsOf txt)) data
         \<longrightarrow> tryJSONLD pg = None)"
proof -
  have "tryJSONLD (zeroFree pg) = None"
    if "ldjson (zeroFree pg) = Returned data"
      and "list_all (\<lambda>txt. list_all (\<lambda>item. \<not> truthy (itemPrice item)) (itemsOf txt)) data"
    for data
    using that by (simp add: tryJSONLD_def scanScripts_no_price)
  then show ?thesis by (simp add: tryJSONLD_zeroFree)
qed

theorem C10_zero_price_skipped_witness:
  "tryJSONLD zeroNumberPage = tryJSONLD (zeroFree zeroNumberPage)
   \<and> ldjson (zeroFree zeroNumberPage) = Returned [Some (Obj [(js ''offers'', Obj [])])]
   \<and> list_all (\<lambda>txt. list_all (\<lambda>item. \<not> truthy (itemPrice item)) (itemsOf txt))
        [Some (Obj [(js ''offers'', Obj [])])]
   \<and> tryJSONLD zeroNumberPage = None"
proof -
  have a: "ldjson (zeroFree zeroNumberPage) = Returned [Some (Obj [(js ''offers'', Obj [])])]"
    by (simp add: zeroFree_def zeroFreeScript_def zeroFreeItem_def zeroFreeOffers_def
        zeroFreeOffer_def mapProp_def dropZeroPrice_def isZero_def zeroNumberPage_def
        blankPage_def offerWith_def js_def)
  have b: "list_all (\<lambda>txt. list_all (\<lambda>item. \<not> truthy (itemPrice item)) (itemsOf txt))
        [Some (Obj [(js ''offers'', Obj [])])]"
    by (simp add: itemsOf_def itemPrice_def offerPrice_def firstOffer_def js_or_def js_and_def js_def)
  have c: "tryJSONLD zeroNumberPage = tryJSONLD (zeroFree zeroNumberPage)"
    using C10_zero_price_skipped[of zeroNumberPage] by blast
  have d: "tryJSONLD zeroNumberPage = None"
    using C10_zero_price_skipped[of zeroNumberPage] a b by blast
  show ?thesis
    using a b c d by blast
qed

text \<open>
  Against C10 as stated (the strategy never returns 0): the price "0" is a non-empty
  string, so it passes the guard, and \<^verbatim>\<open>Number("0")\<close> is 0.
\<close>

theorem C10_counterexample:
  "ldjson zeroStringPage = Returned [Some (offerWith (Str (js ''0'')))]
   \<and> tryJSONLD zeroStringPage = Some (Fin 0)
   \<and> price_eur (scrapeCoin asciiLower plainCoin zeroStringPage) = Some (Fin 0)"
  by (simp add: js_eval)

end
